theory Spec2Isabelle
  imports Complex_Main "HOL-Library.Sublist"
begin

section \<open>Values, errors and the outside world\<close>

text \<open>
  The values \<^verbatim>\<open>pyjson5.loads\<close> can return: \<^verbatim>\<open>None\<close>, booleans, integers, floats,
  strings, lists and dictionaries with string keys. A dictionary is an association list
  read with \<^const>\<open>map_of\<close>. The payload of a float is never inspected by the program.
  Python strings are modelled as \<^typ>\<open>string\<close>; the only string operations of the
  program are concatenation and a suffix test against ASCII literals.
\<close>

datatype pyval =
    PNone
  | PBool bool
  | PInt int
  | PFloat real
  | PStr string
  | PList "pyval list"
  | PDict "(string \<times> pyval) list"

type_synonym pydict = "(string \<times> pyval) list"

text \<open>\<^verbatim>\<open>isinstance(v, list)\<close>\<close>

fun is_list :: "pyval \<Rightarrow> bool" where
  "is_list (PList xs) = True"
| "is_list v = False"

text \<open>\<^verbatim>\<open>d.get(k, default)\<close>\<close>

definition dict_get :: "pydict \<Rightarrow> string \<Rightarrow> pyval \<Rightarrow> pyval" where
  "dict_get d k dflt = (case map_of d k of Some v \<Rightarrow> v | None \<Rightarrow> dflt)"

text \<open>\<^verbatim>\<open>s.endswith(suffix)\<close>\<close>

definition endswith :: "string \<Rightarrow> string \<Rightarrow> bool" where
  "endswith s suf = suffix suf s"

text \<open>
  The two exception classes the program raises, each with its message.
\<close>

datatype error = FileNotFoundError string | ValueError string

datatype exc_class = FileNotFoundError_class | ValueError_class

fun class_of :: "error \<Rightarrow> exc_class" where
  "class_of (FileNotFoundError m) = FileNotFoundError_class"
| "class_of (ValueError m) = ValueError_class"

text \<open>
  What the program asks of its surroundings: \<^verbatim>\<open>os.path.isfile\<close>, opening and reading a
  file as UTF-8 text (\<open>Inl\<close> carries \<^verbatim>\<open>str(e)\<close> of the exception raised), and
  \<^verbatim>\<open>pyjson5.loads\<close> (\<open>Inl\<close> carries \<^verbatim>\<open>str(e)\<close> of the exception raised).
\<close>

record env =
  isfile :: "string \<Rightarrow> bool"
  read_file :: "string \<Rightarrow> string + string"
  loads :: "string \<Rightarrow> string + pyval"

section \<open>The class WaveDromProject\<close>

record project =
  source :: pydict
  diagram_type :: string
  config :: pyval
  head :: pyval
  foot :: pyval

text \<open>Method \<^verbatim>\<open>_get_content\<close>.\<close>

definition get_content :: "env \<Rightarrow> string \<Rightarrow> error + string" where
  "get_content env input_data =
     (if endswith input_data ''.json5'' \<or> endswith input_data ''.json'' then
        if isfile env input_data then
          (case read_file env input_data of
             Inr text \<Rightarrow> Inr text
           | Inl e \<Rightarrow>
               Inl (ValueError (''Error reading file '' @ input_data @ '': '' @ e)))
        else Inl (FileNotFoundError (''File not found: '' @ input_data))
      else Inr input_data)"

text \<open>Method \<^verbatim>\<open>_parse_json5\<close>.\<close>

definition parse_json5 :: "env \<Rightarrow> string \<Rightarrow> error + pydict" where
  \<open>parse_json5 env content =
     (case loads env content of
        Inl e \<Rightarrow> Inl (ValueError (''[Parse Error]: Invalid JSON5 format - '' @ e))
      | Inr parsed \<Rightarrow>
          (case parsed of
             PDict d \<Rightarrow> Inr d
           | _ \<Rightarrow>
               Inl (ValueError
                 ''[Semantic]: The root has to be an Object: "{signal:[...]}"'')))\<close>

text \<open>
  Method \<^verbatim>\<open>_determine_diagram_type\<close>. Each membership test \<^verbatim>\<open>k in self.source\<close> and the
  read \<^verbatim>\<open>self.source[k]\<close> that follows it are one lookup.
\<close>

definition determine_diagram_type :: "project \<Rightarrow> error + string" where
  \<open>determine_diagram_type self =
     (case map_of (source self) ''signal'' of
        Some v \<Rightarrow>
          if \<not> is_list v then
            Inl (ValueError
              ''[Semantic]: "signal" object has to be an Array "signal:[]"'')
          else Inr ''signal''
      | None \<Rightarrow>
     (case map_of (source self) ''assign'' of
        Some v \<Rightarrow>
          if \<not> is_list v then
            Inl (ValueError
              ''[Semantic]: "assign" object has to be an Array "assign:[]"'')
          else Inr ''assign''
      | None \<Rightarrow>
     (case map_of (source self) ''reg'' of
        Some v \<Rightarrow> Inr ''reg''
      | None \<Rightarrow>
          Inl (ValueError
            ''[Semantic]: "signal:[...]", "assign:[...]", or "reg:[...]" property is missing inside the root Object''))))\<close>

text \<open>Method \<^verbatim>\<open>_extract_attributes\<close>.\<close>

definition extract_attributes :: "project \<Rightarrow> project" where
  "extract_attributes self =
     self\<lparr>config := dict_get (source self) ''config'' (PDict []),
          head := dict_get (source self) ''head'' (PDict []),
          foot := dict_get (source self) ''foot'' (PDict [])\<rparr>"

text \<open>
  Method \<^verbatim>\<open>__init__\<close>: the fields are first set to their initial values, then the four
  steps run in order; an exception raised by a step leaves the constructor, and the
  caller receives the object only when the last step has returned.
\<close>

definition init :: "env \<Rightarrow> string \<Rightarrow> error + project" where
  "init env input_data =
     (let self = \<lparr>source = [], diagram_type = '''', config = PDict [],
                  head = PDict [], foot = PDict []\<rparr>
      in case get_content env input_data of
           Inl e \<Rightarrow> Inl e
         | Inr content \<Rightarrow>
      (case parse_json5 env content of
           Inl e \<Rightarrow> Inl e
         | Inr parsed \<Rightarrow>
      (let self = self\<lparr>source := parsed\<rparr>
       in case determine_diagram_type self of
            Inl e \<Rightarrow> Inl e
          | Inr kind \<Rightarrow>
              Inr (extract_attributes (self\<lparr>diagram_type := kind\<rparr>)))))"

text \<open>The diagram kind of a construction's outcome.\<close>

definition kind_of :: "error + project \<Rightarrow> error + string" where
  "kind_of r = map_sum id diagram_type r"



section \<open>The error table of the specification\<close>

text \<open>
  The specification names four error kinds. \<open>spec_error_kind\<close> follows its error table
  and its classification rules, in the words of the specification, and tells which kind
  (if any) the table assigns to an input; it is the side the program is compared with.
\<close>

datatype spec_kind = NotFound | InvalidInput | ParseError | SemanticError

text \<open>
  ``Parsed value is not a mapping, or no recognized diagram key is present, or
  \<^verbatim>\<open>signal\<close>/\<^verbatim>\<open>assign\<close> value is not a sequence'', the keys being tested in the order
  \<^verbatim>\<open>signal\<close>, \<^verbatim>\<open>assign\<close>, \<^verbatim>\<open>reg\<close> and the shape rule applied to the first key present.
\<close>

fun spec_first_rule :: "(string \<times> (pyval \<Rightarrow> bool)) list \<Rightarrow> pydict \<Rightarrow> bool option" where
  "spec_first_rule [] d = None"
| "spec_first_rule ((k, shape_ok) # rules) d =
     (case map_of d k of
        Some v \<Rightarrow> Some (shape_ok v)
      | None \<Rightarrow> spec_first_rule rules d)"

definition spec_rules :: "(string \<times> (pyval \<Rightarrow> bool)) list" where
  "spec_rules = [(''signal'', is_list), (''assign'', is_list), (''reg'', \<lambda>v. True)]"

definition spec_semantic_failure :: "pyval \<Rightarrow> bool" where
  "spec_semantic_failure v =
     (case v of
        PDict d \<Rightarrow> spec_first_rule spec_rules d \<noteq> Some True
      | _ \<Rightarrow> True)"

definition spec_text_kind :: "env \<Rightarrow> string \<Rightarrow> spec_kind option" where
  "spec_text_kind env text =
     (case loads env text of
        Inl e \<Rightarrow> Some ParseError
      | Inr v \<Rightarrow> if spec_semantic_failure v then Some SemanticError else None)"

definition spec_error_kind :: "env \<Rightarrow> string \<Rightarrow> spec_kind option" where
  "spec_error_kind env input_data =
     (if endswith input_data ''.json5'' \<or> endswith input_data ''.json'' then
        if \<not> isfile env input_data then Some NotFound
        else (case read_file env input_data of
                Inl e \<Rightarrow> Some InvalidInput
              | Inr text \<Rightarrow> spec_text_kind env text)
      else spec_text_kind env input_data)"

text \<open>
  What a caller can tell from a raised exception: its class, and the fixed text its
  message starts with.
\<close>

fun kind_by_message :: "error \<Rightarrow> spec_kind option" where
  "kind_by_message (FileNotFoundError m) = Some NotFound"
| "kind_by_message (ValueError m) =
     (if prefix ''Error reading file '' m then Some InvalidInput
      else if prefix ''[Parse Error]: '' m then Some ParseError
      else if prefix ''[Semantic]: '' m then Some SemanticError
      else None)"

section \<open>A small environment for concrete runs\<close>

text \<open>
  Two files and a handful of documents with the values the JSON5 parser gives them.
  \<open>test_loads\<close> stands in for the parser on these documents only; the failure texts
  stand for whatever \<^verbatim>\<open>str(e)\<close> the library and the operating system produce.
\<close>

definition test_documents :: "(string \<times> pyval) list" where
  \<open>test_documents =
    [(''["not", "an", "object"]'', PList [PStr ''not'', PStr ''an'', PStr ''object'']),
     (''{ "config": {} }'', PDict [(''config'', PDict [])]),
     (''{ "signal": "not an array" }'', PDict [(''signal'', PStr ''not an array'')]),
     (''{"reg": "anything"}'', PDict [(''reg'', PStr ''anything'')]),
     (''{"signal": [], "reg": 1}'', PDict [(''signal'', PList []), (''reg'', PInt 1)]),
     (''{"assign": [], "reg": 1}'', PDict [(''assign'', PList []), (''reg'', PInt 1)]),
     (''{"signal": 0, "assign": [], "reg": []}'',
        PDict [(''signal'', PInt 0), (''assign'', PList []), (''reg'', PList [])]),
     (''{"assign": 0, "reg": []}'', PDict [(''assign'', PInt 0), (''reg'', PList [])]),
     (''{"signal": [], "config": 7}'', PDict [(''signal'', PList []), (''config'', PInt 7)]),
     (''{"signal": [], "config": {"hscale": 2}, "head": {"text": "H"}, "foot": {"text": "F"}}'',
        PDict [(''signal'', PList []),
               (''config'', PDict [(''hscale'', PInt 2)]),
               (''head'', PDict [(''text'', PStr ''H'')]),
               (''foot'', PDict [(''text'', PStr ''F'')])]),
     (''{"reg": []} //.json'', PDict [(''reg'', PList [])])]\<close>

definition test_loads :: "string \<Rightarrow> string + pyval" where
  "test_loads text =
     (case map_of test_documents text of
        Some v \<Rightarrow> Inr v
      | None \<Rightarrow> Inl ''syntax error'')"

definition test_env :: env where
  \<open>test_env =
     \<lparr>isfile = (\<lambda>path. path = ''diagram.json5'' \<or> path = ''locked.json''),
      read_file = (\<lambda>path. if path = ''diagram.json5'' then Inr ''{"reg": "anything"}''
                           else Inl ''Permission denied''),
      loads = test_loads\<rparr>\<close>

section \<open>Construction on a parsed mapping\<close>

lemma init_parsed:
  assumes "get_content env input_data = Inr content"
      and "parse_json5 env content = Inr src"
  shows "init env input_data =
     (case determine_diagram_type
             \<lparr>source = src, diagram_type = '''', config = PDict [],
              head = PDict [], foot = PDict []\<rparr> of
        Inl e \<Rightarrow> Inl e
      | Inr kind \<Rightarrow>
          Inr \<lparr>source = src, diagram_type = kind,
               config = dict_get src ''config'' (PDict []),
               head = dict_get src ''head'' (PDict []),
               foot = dict_get src ''foot'' (PDict [])\<rparr>)"
  using assms by (simp add: init_def extract_attributes_def split: sum.splits)

lemma init_Inr_iff:
  "init env input_data = Inr p \<longleftrightarrow>
     (\<exists>content src kind.
        get_content env input_data = Inr content
      \<and> parse_json5 env content = Inr src
      \<and> determine_diagram_type
           \<lparr>source = src, diagram_type = '''', config = PDict [],
            head = PDict [], foot = PDict []\<rparr> = Inr kind
      \<and> p = \<lparr>source = src, diagram_type = kind,
               config = dict_get src ''config'' (PDict []),
               head = dict_get src ''head'' (PDict []),
               foot = dict_get src ''foot'' (PDict [])\<rparr>)"
  by (auto simp: init_def Let_def extract_attributes_def split: sum.splits)

lemma init_Inl_iff:
  "init env input_data = Inl e \<longleftrightarrow>
     (get_content env input_data = Inl e
      \<or> (\<exists>content. get_content env input_data = Inr content
            \<and> (parse_json5 env content = Inl e
               \<or> (\<exists>src. parse_json5 env content = Inr src
                     \<and> determine_diagram_type
                          \<lparr>source = src, diagram_type = '''', config = PDict [],
                           head = PDict [], foot = PDict []\<rparr> = Inl e))))"
  by (auto simp: init_def Let_def split: sum.splits)

lemma determine_Inr:
  assumes "determine_diagram_type self = Inr kind"
  shows "kind \<in> {''signal'', ''assign'', ''reg''}
       \<and> map_of (source self) kind \<noteq> None
       \<and> (kind = ''signal'' \<or> kind = ''assign'' \<longrightarrow>
            (\<exists>xs. map_of (source self) kind = Some (PList xs)))"
  using assms
  by (auto simp: determine_diagram_type_def split: option.splits if_splits elim: is_list.elims)

lemma determine_Inl:
  assumes "determine_diagram_type self = Inl e"
  shows "kind_by_message e = Some SemanticError \<and> class_of e = ValueError_class"
  using assms
  by (auto simp: determine_diagram_type_def split: option.splits if_splits)

lemma parse_json5_Inl:
  assumes "parse_json5 env content = Inl e"
  shows "class_of e = ValueError_class
       \<and> (isl (loads env content) \<longrightarrow> kind_by_message e = Some ParseError)
       \<and> (\<not> isl (loads env content) \<longrightarrow> kind_by_message e = Some SemanticError)"
  using assms
  by (auto simp: parse_json5_def split: sum.splits pyval.splits)

lemma get_content_Inl:
  assumes "get_content env input_data = Inl e"
  shows "(endswith input_data ''.json5'' \<or> endswith input_data ''.json'')
       \<and> (if isfile env input_data
           then isl (read_file env input_data) \<and> class_of e = ValueError_class
                \<and> kind_by_message e = Some InvalidInput
           else e = FileNotFoundError (''File not found: '' @ input_data))"
  using assms
  by (auto simp: get_content_def split: if_splits sum.splits)

section \<open>Concrete runs\<close>

lemma test_text:
  \<open>get_content test_env ''{"signal": [], "reg": 1}'' = Inr ''{"signal": [], "reg": 1}''\<close>
  \<open>get_content test_env ''{"assign": [], "reg": 1}'' = Inr ''{"assign": [], "reg": 1}''\<close>
  \<open>get_content test_env ''{"reg": "anything"}'' = Inr ''{"reg": "anything"}''\<close>
  \<open>get_content test_env ''{ "config": {} }'' = Inr ''{ "config": {} }''\<close>
  by (simp_all add: get_content_def endswith_def suffix_to_prefix)

lemma test_parse:
  \<open>parse_json5 test_env ''{"signal": [], "reg": 1}'' = Inr [(''signal'', PList []), (''reg'', PInt 1)]\<close>
  \<open>parse_json5 test_env ''{"assign": [], "reg": 1}'' = Inr [(''assign'', PList []), (''reg'', PInt 1)]\<close>
  \<open>parse_json5 test_env ''{"reg": "anything"}'' = Inr [(''reg'', PStr ''anything'')]\<close>
  \<open>parse_json5 test_env ''{ "config": {} }'' = Inr [(''config'', PDict [])]\<close>
  by (simp_all add: parse_json5_def test_env_def test_loads_def test_documents_def)

section \<open>Classification\<close>

text \<open>
  Claim C1. Classification is priority-ordered. On a parsed mapping the outcome is
  decided by the first key present among \<^verbatim>\<open>signal\<close>, \<^verbatim>\<open>assign\<close>, \<^verbatim>\<open>reg\<close>, in this
  order: when \<^verbatim>\<open>signal\<close> is present the kind is \<^verbatim>\<open>signal\<close> (its value being a list),
  whatever else the mapping holds; \<^verbatim>\<open>assign\<close> decides only when \<^verbatim>\<open>signal\<close> is absent,
  \<^verbatim>\<open>reg\<close> only when both are absent; with none of the three, construction fails with
  the semantic error whose message names all three keys.
\<close>

theorem priority_order:
  assumes "get_content env input_data = Inr content"
      and "parse_json5 env content = Inr src"
  shows \<open>(\<forall>v. map_of src ''signal'' = Some v \<longrightarrow>
            kind_of (init env input_data) =
              (if is_list v then Inr ''signal''
               else Inl (ValueError
                 ''[Semantic]: "signal" object has to be an Array "signal:[]"'')))
       \<and> (\<forall>v. map_of src ''signal'' = None \<and> map_of src ''assign'' = Some v \<longrightarrow>
            kind_of (init env input_data) =
              (if is_list v then Inr ''assign''
               else Inl (ValueError
                 ''[Semantic]: "assign" object has to be an Array "assign:[]"'')))
       \<and> (\<forall>v. map_of src ''signal'' = None \<and> map_of src ''assign'' = None
              \<and> map_of src ''reg'' = Some v \<longrightarrow>
            kind_of (init env input_data) = Inr ''reg'')
       \<and> (map_of src ''signal'' = None \<and> map_of src ''assign'' = None
              \<and> map_of src ''reg'' = None \<longrightarrow>
            init env input_data = Inl (ValueError
              ''[Semantic]: "signal:[...]", "assign:[...]", or "reg:[...]" property is missing inside the root Object''))\<close>
  by (simp add: init_parsed [OF assms] determine_diagram_type_def kind_of_def)

theorem priority_order_witness:
  \<open>kind_of (init test_env ''{"signal": [], "reg": 1}'') = Inr ''signal''
   \<and> kind_of (init test_env ''{"assign": [], "reg": 1}'') = Inr ''assign''
   \<and> kind_of (init test_env ''{"reg": "anything"}'') = Inr ''reg''
   \<and> init test_env ''{ "config": {} }'' = Inl (ValueError
        ''[Semantic]: "signal:[...]", "assign:[...]", or "reg:[...]" property is missing inside the root Object'')\<close>
  using priority_order [OF test_text(1) test_parse(1)]
        priority_order [OF test_text(2) test_parse(2)]
        priority_order [OF test_text(3) test_parse(3)]
        priority_order [OF test_text(4) test_parse(4)]
  by simp

lemma test_text2:
  \<open>get_content test_env ''{"signal": 0, "assign": [], "reg": []}'' = Inr ''{"signal": 0, "assign": [], "reg": []}''\<close>
  \<open>get_content test_env ''{"assign": 0, "reg": []}'' = Inr ''{"assign": 0, "reg": []}''\<close>
  by (simp_all add: get_content_def endswith_def suffix_to_prefix)

lemma test_parse2:
  \<open>parse_json5 test_env ''{"signal": 0, "assign": [], "reg": []}'' =
     Inr [(''signal'', PInt 0), (''assign'', PList []), (''reg'', PList [])]\<close>
  \<open>parse_json5 test_env ''{"assign": 0, "reg": []}'' = Inr [(''assign'', PInt 0), (''reg'', PList [])]\<close>
  by (simp_all add: parse_json5_def test_env_def test_loads_def test_documents_def)

text \<open>
  Claim C2. Shape validation applies only to the key that won classification. A mapping
  whose \<^verbatim>\<open>signal\<close> value is not a list makes construction fail with the semantic error
  saying that \<^verbatim>\<open>signal\<close> has to be an array, whatever \<^verbatim>\<open>assign\<close> and \<^verbatim>\<open>reg\<close> hold (no
  later rule is tried); with \<^verbatim>\<open>signal\<close> absent and a non-list under \<^verbatim>\<open>assign\<close>,
  construction fails with the semantic error saying that \<^verbatim>\<open>assign\<close> has to be an array.
\<close>

theorem shape_validation:
  assumes "get_content env input_data = Inr content"
      and "parse_json5 env content = Inr src"
  shows \<open>(\<forall>v. map_of src ''signal'' = Some v \<and> \<not> is_list v \<longrightarrow>
            init env input_data = Inl (ValueError
              ''[Semantic]: "signal" object has to be an Array "signal:[]"''))
       \<and> (\<forall>v. map_of src ''signal'' = None \<and> map_of src ''assign'' = Some v
              \<and> \<not> is_list v \<longrightarrow>
            init env input_data = Inl (ValueError
              ''[Semantic]: "assign" object has to be an Array "assign:[]"''))\<close>
  by (simp add: init_parsed [OF assms] determine_diagram_type_def)

theorem shape_validation_witness:
  \<open>map_of [(''signal'', PInt 0), (''assign'', PList []), (''reg'', PList [])] ''assign''
      = Some (PList [])
   \<and> init test_env ''{"signal": 0, "assign": [], "reg": []}'' = Inl (ValueError
        ''[Semantic]: "signal" object has to be an Array "signal:[]"'')
   \<and> init test_env ''{"assign": 0, "reg": []}'' = Inl (ValueError
        ''[Semantic]: "assign" object has to be an Array "assign:[]"'')\<close>
  using shape_validation [OF test_text2(1) test_parse2(1)]
        shape_validation [OF test_text2(2) test_parse2(2)]
  by simp

section \<open>Content resolution\<close>

lemma parse_json5_env:
  "parse_json5 (env\<lparr>isfile := f, read_file := r\<rparr>) content = parse_json5 env content"
  by (simp add: parse_json5_def)

text \<open>
  Claim C3. An input that ends in \<^verbatim>\<open>.json5\<close> or \<^verbatim>\<open>.json\<close> (a case-sensitive suffix test
  on the whole string) and names no existing file makes construction fail with
  \<^verbatim>\<open>FileNotFoundError\<close>, its message giving the path, also when the string is valid
  document text. Any other input is the document text itself, and the outcome of
  construction does not depend on the file system.
\<close>

theorem content_resolution:
  \<open>((endswith input_data ''.json5'' \<or> endswith input_data ''.json'')
       \<and> \<not> isfile env input_data \<longrightarrow>
     init env input_data = Inl (FileNotFoundError (''File not found: '' @ input_data)))
   \<and> (\<not> endswith input_data ''.json5'' \<and> \<not> endswith input_data ''.json'' \<longrightarrow>
     get_content env input_data = Inr input_data
     \<and> (\<forall>f r. init (env\<lparr>isfile := f, read_file := r\<rparr>) input_data = init env input_data))\<close>
  by (simp add: init_def get_content_def parse_json5_env)

theorem content_resolution_witness:
  \<open>loads test_env ''{"reg": []} //.json'' = Inr (PDict [(''reg'', PList [])])
   \<and> init test_env ''{"reg": []} //.json'' =
       Inl (FileNotFoundError ''File not found: {"reg": []} //.json'')
   \<and> init test_env ''missing.json5'' = Inl (FileNotFoundError ''File not found: missing.json5'')
   \<and> \<not> endswith ''diagram.JSON5'' ''.json5''
   \<and> get_content test_env ''diagram.JSON5'' = Inr ''diagram.JSON5''
   \<and> init (test_env\<lparr>isfile := \<lambda>p. True, read_file := \<lambda>p. Inr ''{"reg": []}''\<rparr>)
         ''{"reg": "anything"}'' = init test_env ''{"reg": "anything"}''\<close>
proof -
  have a: \<open>endswith ''{"reg": []} //.json'' ''.json''\<close>
          \<open>\<not> isfile test_env ''{"reg": []} //.json''\<close>
          \<open>endswith ''missing.json5'' ''.json5''\<close>
          \<open>\<not> isfile test_env ''missing.json5''\<close>
    by (simp_all add: endswith_def suffix_to_prefix test_env_def)
  have b: \<open>\<not> endswith ''diagram.JSON5'' ''.json5''\<close> \<open>\<not> endswith ''diagram.JSON5'' ''.json''\<close>
          \<open>\<not> endswith ''{"reg": "anything"}'' ''.json5''\<close>
          \<open>\<not> endswith ''{"reg": "anything"}'' ''.json''\<close>
    by (simp_all add: endswith_def suffix_to_prefix)
  have c: \<open>loads test_env ''{"reg": []} //.json'' = Inr (PDict [(''reg'', PList [])])\<close>
    by (simp add: test_env_def test_loads_def test_documents_def)
  show ?thesis
    using a b c
      content_resolution [of \<open>''{"reg": []} //.json''\<close> test_env]
      content_resolution [of \<open>''missing.json5''\<close> test_env]
      content_resolution [of \<open>''diagram.JSON5''\<close> test_env]
      content_resolution [of \<open>''{"reg": "anything"}''\<close> test_env]
    by simp
qed

section \<open>Attributes\<close>

lemma test_text3:
  \<open>get_content test_env ''{"signal": [], "config": 7}'' = Inr ''{"signal": [], "config": 7}''\<close>
  \<open>get_content test_env ''{"signal": [], "config": {"hscale": 2}, "head": {"text": "H"}, "foot": {"text": "F"}}''
     = Inr ''{"signal": [], "config": {"hscale": 2}, "head": {"text": "H"}, "foot": {"text": "F"}}''\<close>
  \<open>get_content test_env ''diagram.json5'' = Inr ''{"reg": "anything"}''\<close>
  by (simp_all add: get_content_def endswith_def suffix_to_prefix test_env_def)

lemma test_parse3:
  \<open>parse_json5 test_env ''{"signal": [], "config": 7}'' =
     Inr [(''signal'', PList []), (''config'', PInt 7)]\<close>
  \<open>parse_json5 test_env ''{"signal": [], "config": {"hscale": 2}, "head": {"text": "H"}, "foot": {"text": "F"}}''
     = Inr [(''signal'', PList []),
            (''config'', PDict [(''hscale'', PInt 2)]),
            (''head'', PDict [(''text'', PStr ''H'')]),
            (''foot'', PDict [(''text'', PStr ''F'')])]\<close>
  by (simp_all add: parse_json5_def test_env_def test_loads_def test_documents_def)

lemma test_init:
  \<open>init test_env ''{"signal": [], "config": 7}'' =
     Inr \<lparr>source = [(''signal'', PList []), (''config'', PInt 7)],
          diagram_type = ''signal'', config = PInt 7, head = PDict [], foot = PDict []\<rparr>\<close>
  \<open>init test_env ''{"signal": [], "config": {"hscale": 2}, "head": {"text": "H"}, "foot": {"text": "F"}}''
     = Inr \<lparr>source = [(''signal'', PList []),
                      (''config'', PDict [(''hscale'', PInt 2)]),
                      (''head'', PDict [(''text'', PStr ''H'')]),
                      (''foot'', PDict [(''text'', PStr ''F'')])],
            diagram_type = ''signal'',
            config = PDict [(''hscale'', PInt 2)],
            head = PDict [(''text'', PStr ''H'')],
            foot = PDict [(''text'', PStr ''F'')]\<rparr>\<close>
  \<open>init test_env ''diagram.json5'' =
     Inr \<lparr>source = [(''reg'', PStr ''anything'')], diagram_type = ''reg'',
          config = PDict [], head = PDict [], foot = PDict []\<rparr>\<close>
  by (simp_all add: init_parsed [OF test_text3(1) test_parse3(1)]
        init_parsed [OF test_text3(2) test_parse3(2)]
        init_parsed [OF test_text3(3) test_parse(3)]
        determine_diagram_type_def dict_get_def)

text \<open>
  Claim C5. Attribute extraction is unconditional and independent of the diagram kind.
  In every constructed project, \<^verbatim>\<open>source\<close> is the parsed document, and each of
  \<^verbatim>\<open>config\<close>, \<^verbatim>\<open>head\<close>, \<^verbatim>\<open>foot\<close> is the value stored under that key in it, whatever the
  shape of that value, and the empty mapping when the key is absent.
\<close>

theorem attributes_pass_through:
  assumes "init env input_data = Inr p"
  shows "(\<exists>content. get_content env input_data = Inr content
            \<and> loads env content = Inr (PDict (source p)))
       \<and> config p = (case map_of (source p) ''config'' of Some v \<Rightarrow> v | None \<Rightarrow> PDict [])
       \<and> head p = (case map_of (source p) ''head'' of Some v \<Rightarrow> v | None \<Rightarrow> PDict [])
       \<and> foot p = (case map_of (source p) ''foot'' of Some v \<Rightarrow> v | None \<Rightarrow> PDict [])"
proof -
  from assms obtain content src kind where
    c: "get_content env input_data = Inr content" and
    s: "parse_json5 env content = Inr src" and
    p: "p = \<lparr>source = src, diagram_type = kind,
             config = dict_get src ''config'' (PDict []),
             head = dict_get src ''head'' (PDict []),
             foot = dict_get src ''foot'' (PDict [])\<rparr>"
    unfolding init_Inr_iff by blast
  from s have "loads env content = Inr (PDict src)"
    by (auto simp: parse_json5_def split: sum.splits pyval.splits)
  with c p show ?thesis
    by (simp add: dict_get_def)
qed

theorem attributes_pass_through_witness:
  \<open>(\<exists>content. get_content test_env ''{"signal": [], "config": 7}'' = Inr content
       \<and> loads test_env content = Inr (PDict [(''signal'', PList []), (''config'', PInt 7)]))
   \<and> config \<lparr>source = [(''signal'', PList []), (''config'', PInt 7)],
          diagram_type = ''signal'', config = PInt 7, head = PDict [], foot = PDict []\<rparr>
       = PInt 7
   \<and> head \<lparr>source = [(''signal'', PList []), (''config'', PInt 7)],
          diagram_type = ''signal'', config = PInt 7, head = PDict [], foot = PDict []\<rparr>
       = PDict []\<close>
  using attributes_pass_through [OF test_init(1)] by simp

section \<open>Register diagrams\<close>

text \<open>
  Claim C6. A mapping without \<^verbatim>\<open>signal\<close> and \<^verbatim>\<open>assign\<close> that has the key \<^verbatim>\<open>reg\<close> is
  constructed with diagram kind \<^verbatim>\<open>reg\<close>, whatever value is stored under \<^verbatim>\<open>reg\<close>; no
  shape error is raised.
\<close>

theorem reg_accepts_any_value:
  assumes "get_content env input_data = Inr content"
      and "parse_json5 env content = Inr src"
      and "map_of src ''signal'' = None"
      and "map_of src ''assign'' = None"
      and "map_of src ''reg'' = Some v"
  shows "init env input_data =
           Inr \<lparr>source = src, diagram_type = ''reg'',
                config = dict_get src ''config'' (PDict []),
                head = dict_get src ''head'' (PDict []),
                foot = dict_get src ''foot'' (PDict [])\<rparr>"
  using assms(3-5)
  by (simp add: init_parsed [OF assms(1,2)] determine_diagram_type_def)

theorem reg_accepts_any_value_witness:
  \<open>map_of [(''reg'', PStr ''anything'')] ''reg'' = Some (PStr ''anything'')
   \<and> init test_env ''{"reg": "anything"}'' =
       Inr \<lparr>source = [(''reg'', PStr ''anything'')], diagram_type = ''reg'',
            config = PDict [], head = PDict [], foot = PDict []\<rparr>\<close>
  using reg_accepts_any_value [OF test_text(3) test_parse(3), of \<open>PStr ''anything''\<close>]
  by (simp add: dict_get_def)

section \<open>The constructed project\<close>

lemma test_failures:
  \<open>get_content test_env ''missing.json5'' =
     Inl (FileNotFoundError ''File not found: missing.json5'')\<close>
  \<open>get_content test_env ''locked.json'' =
     Inl (ValueError ''Error reading file locked.json: Permission denied'')\<close>
  \<open>get_content test_env ''{ invalid json }'' = Inr ''{ invalid json }''\<close>
  \<open>parse_json5 test_env ''{ invalid json }'' =
     Inl (ValueError ''[Parse Error]: Invalid JSON5 format - syntax error'')\<close>
  \<open>get_content test_env ''["not", "an", "object"]'' = Inr ''["not", "an", "object"]''\<close>
  \<open>parse_json5 test_env ''["not", "an", "object"]'' =
     Inl (ValueError ''[Semantic]: The root has to be an Object: "{signal:[...]}"'')\<close>
  \<open>get_content test_env ''{ "signal": "not an array" }'' = Inr ''{ "signal": "not an array" }''\<close>
  \<open>parse_json5 test_env ''{ "signal": "not an array" }'' =
     Inr [(''signal'', PStr ''not an array'')]\<close>
  by (simp_all add: get_content_def endswith_def suffix_to_prefix parse_json5_def
        test_env_def test_loads_def test_documents_def)

text \<open>
  Claim C10. Invariant of every constructed project: its diagram kind is one of
  \<^verbatim>\<open>signal\<close>, \<^verbatim>\<open>assign\<close>, \<^verbatim>\<open>reg\<close>; the key equal to the diagram kind is present in its
  source mapping; and when the kind is \<^verbatim>\<open>signal\<close> or \<^verbatim>\<open>assign\<close>, the value stored under
  that key is a list.
\<close>

theorem project_invariant:
  assumes "init env input_data = Inr p"
  shows "diagram_type p \<in> {''signal'', ''assign'', ''reg''}
       \<and> map_of (source p) (diagram_type p) \<noteq> None
       \<and> (diagram_type p = ''signal'' \<or> diagram_type p = ''assign'' \<longrightarrow>
            (\<exists>xs. map_of (source p) (diagram_type p) = Some (PList xs)))"
proof -
  from assms obtain src kind where
    d: "determine_diagram_type
          \<lparr>source = src, diagram_type = '''', config = PDict [],
           head = PDict [], foot = PDict []\<rparr> = Inr kind" and
    p: "source p = src" "diagram_type p = kind"
    unfolding init_Inr_iff by auto
  from determine_Inr [OF d] p show ?thesis
    by simp
qed

theorem project_invariant_witness:
  \<open>init test_env ''{"signal": [], "config": 7}'' =
     Inr \<lparr>source = [(''signal'', PList []), (''config'', PInt 7)],
          diagram_type = ''signal'', config = PInt 7, head = PDict [], foot = PDict []\<rparr>
   \<and> map_of [(''signal'', PList []), (''config'', PInt 7)] ''signal'' = Some (PList [])\<close>
  using project_invariant [OF test_init(1)] test_init(1) by simp

section \<open>Error kinds\<close>

lemma kind_by_message_NotFound:
  "kind_by_message e = Some NotFound \<longleftrightarrow> class_of e = FileNotFoundError_class"
  by (cases e) simp_all

lemma determine_kind:
  "(case determine_diagram_type self of
      Inl e \<Rightarrow> kind_by_message e = Some SemanticError \<and> class_of e = ValueError_class
                \<and> spec_first_rule spec_rules (source self) \<noteq> Some True
    | Inr kind \<Rightarrow> spec_first_rule spec_rules (source self) = Some True)"
  by (simp add: determine_diagram_type_def spec_rules_def split: option.splits)

lemma text_kind:
  "(case parse_json5 env content of
      Inl e \<Rightarrow> spec_text_kind env content = kind_by_message e
                \<and> class_of e = ValueError_class
    | Inr src \<Rightarrow>
        (case determine_diagram_type
                \<lparr>source = src, diagram_type = t, config = a, head = b, foot = c\<rparr> of
           Inl e \<Rightarrow> spec_text_kind env content = kind_by_message e
                     \<and> class_of e = ValueError_class
         | Inr kind \<Rightarrow> spec_text_kind env content = None))"
proof (cases "loads env content")
  case (Inl m)
  then show ?thesis
    by (simp add: parse_json5_def spec_text_kind_def)
next
  case (Inr v)
  show ?thesis
  proof (cases "\<exists>d. v = PDict d")
    case True
    then obtain d where v: "v = PDict d" ..
    from determine_kind [of "\<lparr>source = d, diagram_type = t, config = a, head = b, foot = c\<rparr>"]
    show ?thesis
      using Inr v
      by (auto simp: parse_json5_def spec_text_kind_def spec_semantic_failure_def
            split: sum.splits)
  next
    case False
    with Inr show ?thesis
      by (cases v) (simp_all add: parse_json5_def spec_text_kind_def spec_semantic_failure_def)
  qed
qed

lemma init_kind:
  "(case init env input_data of
      Inl e \<Rightarrow> spec_error_kind env input_data = kind_by_message e
                \<and> (class_of e = FileNotFoundError_class
                      \<longleftrightarrow> spec_error_kind env input_data = Some NotFound)
    | Inr p \<Rightarrow> spec_error_kind env input_data = None)"
proof (cases "get_content env input_data")
  case (Inl e)
  from get_content_Inl [OF Inl] Inl show ?thesis
    by (auto simp: init_def spec_error_kind_def isl_def split: if_splits)
next
  case (Inr content)
  then have k: "spec_error_kind env input_data = spec_text_kind env content"
    by (auto simp: get_content_def spec_error_kind_def split: if_splits sum.splits)
  from text_kind [of env content "''''" "PDict []" "PDict []" "PDict []"] Inr k
  show ?thesis
    by (auto simp: init_def Let_def kind_by_message_NotFound split: sum.splits)
qed

lemma test_loads_runs:
  \<open>loads test_env ''{ invalid json }'' = Inl ''syntax error''\<close>
  \<open>loads test_env ''["not", "an", "object"]'' =
     Inr (PList [PStr ''not'', PStr ''an'', PStr ''object''])\<close>
  \<open>loads test_env ''{"reg": "anything"}'' = Inr (PDict [(''reg'', PStr ''anything'')])\<close>
  by (simp_all add: test_env_def test_loads_def test_documents_def)

text \<open>
  Claim C4, as stated: a parser failure and a non-mapping root are failures of distinct
  kind. They are not: both are raised as \<^verbatim>\<open>ValueError\<close>.
\<close>

theorem parse_failures_same_class:
  \<open>loads test_env ''{ invalid json }'' = Inl ''syntax error''
   \<and> loads test_env ''["not", "an", "object"]'' =
       Inr (PList [PStr ''not'', PStr ''an'', PStr ''object''])
   \<and> map_sum class_of id (parse_json5 test_env ''{ invalid json }'') = Inl ValueError_class
   \<and> map_sum class_of id (parse_json5 test_env ''["not", "an", "object"]'') =
       Inl ValueError_class\<close>
  by (simp add: test_loads_runs test_failures)

text \<open>
  Claim C4, amended. The parser adapter raises a \<^verbatim>\<open>ValueError\<close> whose message starts
  with \<^verbatim>\<open>[Parse Error]: \<close> exactly when the external parser reports a failure on the
  text, and, after a successful parse whose value is not a mapping, raises a
  \<^verbatim>\<open>ValueError\<close> whose message starts with \<^verbatim>\<open>[Semantic]: \<close> and says that the root has to
  be an object. The two failures have the same exception class and differ by their
  message only. On a successful parse of a mapping the adapter returns that mapping.
\<close>

theorem parse_json5_outcomes:
  \<open>(\<forall>m. loads env content = Inl m \<longrightarrow>
       parse_json5 env content =
         Inl (ValueError (''[Parse Error]: Invalid JSON5 format - '' @ m)))
   \<and> (\<forall>v. loads env content = Inr v \<and> (\<forall>d. v \<noteq> PDict d) \<longrightarrow>
       parse_json5 env content =
         Inl (ValueError ''[Semantic]: The root has to be an Object: "{signal:[...]}"''))
   \<and> (\<forall>d. loads env content = Inr (PDict d) \<longrightarrow> parse_json5 env content = Inr d)
   \<and> (\<forall>e. parse_json5 env content = Inl e \<longrightarrow>
         class_of e = ValueError_class
       \<and> (kind_by_message e = Some ParseError \<longleftrightarrow> isl (loads env content))
       \<and> (kind_by_message e = Some SemanticError \<longleftrightarrow> \<not> isl (loads env content)))\<close>
proof (intro conjI allI impI)
  fix m assume "loads env content = Inl m"
  then show "parse_json5 env content =
      Inl (ValueError (''[Parse Error]: Invalid JSON5 format - '' @ m))"
    by (simp add: parse_json5_def)
next
  fix v assume "loads env content = Inr v \<and> (\<forall>d. v \<noteq> PDict d)"
  then show \<open>parse_json5 env content =
      Inl (ValueError ''[Semantic]: The root has to be an Object: "{signal:[...]}"'')\<close>
    by (cases v) (simp_all add: parse_json5_def)
next
  fix d assume "loads env content = Inr (PDict d)"
  then show "parse_json5 env content = Inr d"
    by (simp add: parse_json5_def)
next
  fix e assume e: "parse_json5 env content = Inl e"
  from parse_json5_Inl [OF e] show "class_of e = ValueError_class"
    by simp
  from parse_json5_Inl [OF e]
  show "kind_by_message e = Some ParseError \<longleftrightarrow> isl (loads env content)"
    by auto
  from parse_json5_Inl [OF e]
  show "kind_by_message e = Some SemanticError \<longleftrightarrow> \<not> isl (loads env content)"
    by auto
qed

theorem parse_json5_outcomes_witness:
  \<open>parse_json5 test_env ''{ invalid json }'' =
     Inl (ValueError ''[Parse Error]: Invalid JSON5 format - syntax error'')
   \<and> parse_json5 test_env ''["not", "an", "object"]'' =
     Inl (ValueError ''[Semantic]: The root has to be an Object: "{signal:[...]}"'')
   \<and> parse_json5 test_env ''{"reg": "anything"}'' = Inr [(''reg'', PStr ''anything'')]
   \<and> kind_by_message (ValueError ''[Parse Error]: Invalid JSON5 format - syntax error'')
       = Some ParseError
   \<and> kind_by_message
        (ValueError ''[Semantic]: The root has to be an Object: "{signal:[...]}"'')
       = Some SemanticError\<close>
  using parse_json5_outcomes [of test_env \<open>''{ invalid json }''\<close>]
        parse_json5_outcomes [of test_env \<open>''["not", "an", "object"]''\<close>]
        parse_json5_outcomes [of test_env \<open>''{"reg": "anything"}''\<close>]
  by (simp add: test_loads_runs)

text \<open>
  Claim C7, as stated: any two failures with different triggers of the error table are
  signalled as distinct error kinds. They are not: a file that cannot be read, a text
  the parser rejects and a \<^verbatim>\<open>signal\<close> value that is not a list all raise \<^verbatim>\<open>ValueError\<close>.
\<close>

theorem error_kinds_collapse:
  \<open>spec_error_kind test_env ''locked.json'' = Some InvalidInput
   \<and> spec_error_kind test_env ''{ invalid json }'' = Some ParseError
   \<and> spec_error_kind test_env ''{ "signal": "not an array" }'' = Some SemanticError
   \<and> map_sum class_of id (init test_env ''locked.json'') = Inl ValueError_class
   \<and> map_sum class_of id (init test_env ''{ invalid json }'') = Inl ValueError_class
   \<and> map_sum class_of id (init test_env ''{ "signal": "not an array" }'') =
       Inl ValueError_class\<close>
proof -
  have \<open>spec_error_kind test_env ''locked.json'' = Some InvalidInput\<close>
    by (simp add: spec_error_kind_def endswith_def suffix_to_prefix test_env_def)
  moreover have \<open>spec_error_kind test_env ''{ invalid json }'' = Some ParseError\<close>
    by (simp add: spec_error_kind_def spec_text_kind_def endswith_def suffix_to_prefix
          test_loads_runs)
  moreover
  have \<open>spec_error_kind test_env ''{ "signal": "not an array" }'' = Some SemanticError\<close>
    by (simp add: spec_error_kind_def spec_text_kind_def spec_semantic_failure_def
          spec_rules_def endswith_def suffix_to_prefix test_env_def test_loads_def
          test_documents_def)
  moreover
  have \<open>map_sum class_of id (init test_env ''locked.json'') = Inl ValueError_class\<close>
    by (simp add: init_def test_failures)
  moreover
  have \<open>map_sum class_of id (init test_env ''{ invalid json }'') = Inl ValueError_class\<close>
    by (simp add: init_def test_failures)
  moreover
  have \<open>map_sum class_of id (init test_env ''{ "signal": "not an array" }'') =
      Inl ValueError_class\<close>
    by (simp add: init_def test_failures determine_diagram_type_def)
  ultimately show ?thesis
    by simp
qed

text \<open>
  Claim C7, amended. The exception class tells \<^verbatim>\<open>NotFound\<close> (\<^verbatim>\<open>FileNotFoundError\<close>) from
  the other three kinds, which are all raised as \<^verbatim>\<open>ValueError\<close>; the kind the error
  table assigns to a failure is recovered from the class together with the fixed text
  the message starts with (\<^verbatim>\<open>Error reading file \<close>, \<^verbatim>\<open>[Parse Error]: \<close>,
  \<^verbatim>\<open>[Semantic]: \<close>), and construction returns a project exactly when the table assigns
  no kind.
\<close>

theorem error_kinds_signalled:
  "(\<forall>e. init env input_data = Inl e \<longrightarrow>
        spec_error_kind env input_data = kind_by_message e
      \<and> (class_of e = FileNotFoundError_class
            \<longleftrightarrow> spec_error_kind env input_data = Some NotFound)
      \<and> (class_of e = ValueError_class
            \<longleftrightarrow> spec_error_kind env input_data
                  \<in> {Some InvalidInput, Some ParseError, Some SemanticError}))
   \<and> ((\<exists>p. init env input_data = Inr p) \<longleftrightarrow> spec_error_kind env input_data = None)"
proof -
  have fail: "\<exists>sk. kind_by_message e = Some sk" if e: "init env input_data = Inl e" for e
  proof (cases "get_content env input_data")
    case l: (Inl e')
    with e have "e' = e"
      by (simp add: init_def)
    with get_content_Inl [OF l] show ?thesis
      by (auto split: if_splits)
  next
    case (Inr content)
    with e
    have "parse_json5 env content = Inl e
        \<or> (\<exists>src. parse_json5 env content = Inr src
              \<and> determine_diagram_type
                   \<lparr>source = src, diagram_type = '''', config = PDict [],
                    head = PDict [], foot = PDict []\<rparr> = Inl e)"
      by (simp add: init_Inl_iff)
    then show ?thesis
    proof
      assume "parse_json5 env content = Inl e"
      from parse_json5_Inl [OF this] show ?thesis
        by (cases "isl (loads env content)") simp_all
    next
      assume "\<exists>src. parse_json5 env content = Inr src
              \<and> determine_diagram_type
                   \<lparr>source = src, diagram_type = '''', config = PDict [],
                    head = PDict [], foot = PDict []\<rparr> = Inl e"
      then obtain src where "determine_diagram_type
                   \<lparr>source = src, diagram_type = '''', config = PDict [],
                    head = PDict [], foot = PDict []\<rparr> = Inl e"
        by blast
      from determine_Inl [OF this] show ?thesis
        by simp
    qed
  qed
  show ?thesis
  proof (cases "init env input_data")
    case (Inl e)
    with init_kind [of env input_data]
    have k: "spec_error_kind env input_data = kind_by_message e"
      by simp
    from fail [OF Inl] obtain sk where sk: "kind_by_message e = Some sk"
      by blast
    have c: "class_of e = FileNotFoundError_class \<longleftrightarrow> sk = NotFound"
      using kind_by_message_NotFound [of e] sk by simp
    then have v: "class_of e = ValueError_class
        \<longleftrightarrow> sk = InvalidInput \<or> sk = ParseError \<or> sk = SemanticError"
      by (cases "class_of e"; cases sk) simp_all
    from k sk have s: "spec_error_kind env input_data = Some sk"
      by simp
    from Inl s sk c v show ?thesis
      by simp
  next
    case (Inr p)
    with init_kind [of env input_data] show ?thesis
      by simp
  qed
qed

theorem error_kinds_signalled_witness:
  \<open>init test_env ''missing.json5'' =
     Inl (FileNotFoundError ''File not found: missing.json5'')
   \<and> spec_error_kind test_env ''missing.json5'' = Some NotFound
   \<and> init test_env ''locked.json'' =
     Inl (ValueError ''Error reading file locked.json: Permission denied'')
   \<and> spec_error_kind test_env ''locked.json'' = Some InvalidInput
   \<and> spec_error_kind test_env ''{"reg": "anything"}'' = None\<close>
proof -
  have a: \<open>init test_env ''missing.json5'' =
      Inl (FileNotFoundError ''File not found: missing.json5'')\<close>
      \<open>init test_env ''locked.json'' =
      Inl (ValueError ''Error reading file locked.json: Permission denied'')\<close>
    by (simp_all add: init_def test_failures)
  have b: \<open>\<exists>p. init test_env ''{"reg": "anything"}'' = Inr p\<close>
    by (simp add: init_parsed [OF test_text(3) test_parse(3)] determine_diagram_type_def)
  from error_kinds_signalled [of test_env \<open>''missing.json5''\<close>] a(1)
  have 1: \<open>spec_error_kind test_env ''missing.json5'' = Some NotFound\<close>
    by simp
  from error_kinds_signalled [of test_env \<open>''locked.json''\<close>] a(2)
  have 2: \<open>spec_error_kind test_env ''locked.json'' = Some InvalidInput\<close>
    by simp
  from error_kinds_signalled [of test_env \<open>''{"reg": "anything"}''\<close>] b
  have 3: \<open>spec_error_kind test_env ''{"reg": "anything"}'' = None\<close>
    by simp
  from a 1 2 3 show ?thesis
    by simp
qed

section \<open>Construction end to end\<close>

lemma get_content_Inr_iff:
  "get_content env input_data = Inr text \<longleftrightarrow>
     (if endswith input_data ''.json5'' \<or> endswith input_data ''.json''
      then isfile env input_data \<and> read_file env input_data = Inr text
      else text = input_data)"
  by (auto simp: get_content_def split: sum.splits)

lemma parse_json5_Inr_iff:
  "parse_json5 env content = Inr d \<longleftrightarrow> loads env content = Inr (PDict d)"
  by (auto simp: parse_json5_def split: sum.splits pyval.splits)

lemma determine_Inr_first_key:
  assumes "determine_diagram_type self = Inr kind"
  shows "kind = (if map_of (source self) ''signal'' \<noteq> None then ''signal''
                 else if map_of (source self) ''assign'' \<noteq> None then ''assign''
                 else ''reg'')"
  using assms
  by (auto simp: determine_diagram_type_def split: option.splits if_splits)

lemma init_Inl_kind:
  assumes e: "init env input_data = Inl e"
  shows "\<exists>sk. kind_by_message e = Some sk"
proof (cases "get_content env input_data")
  case l: (Inl e')
  with e have "e' = e"
    by (simp add: init_def)
  with get_content_Inl [OF l] show ?thesis
    by (auto split: if_splits)
next
  case (Inr content)
  with e
  have "parse_json5 env content = Inl e
      \<or> (\<exists>src. parse_json5 env content = Inr src
            \<and> determine_diagram_type
                 \<lparr>source = src, diagram_type = '''', config = PDict [],
                  head = PDict [], foot = PDict []\<rparr> = Inl e)"
    by (simp add: init_Inl_iff)
  then show ?thesis
  proof
    assume "parse_json5 env content = Inl e"
    from parse_json5_Inl [OF this] show ?thesis
      by (cases "isl (loads env content)") simp_all
  next
    assume "\<exists>src. parse_json5 env content = Inr src
            \<and> determine_diagram_type
                 \<lparr>source = src, diagram_type = '''', config = PDict [],
                  head = PDict [], foot = PDict []\<rparr> = Inl e"
    then obtain src where "determine_diagram_type
                 \<lparr>source = src, diagram_type = '''', config = PDict [],
                  head = PDict [], foot = PDict []\<rparr> = Inl e"
      by blast
    from determine_Inl [OF this] show ?thesis
      by simp
  qed
qed

text \<open>
  Claim C8. Construction is atomic. Whenever a trigger of the error table fires
  (no file at a path-like input, a file that cannot be read, a text the parser rejects,
  a root that is not a mapping, no diagram key, a \<^verbatim>\<open>signal\<close> or \<^verbatim>\<open>assign\<close> value that is
  not a list), construction raises and returns no project; when none fires it returns
  a project with every field set from the document: \<^verbatim>\<open>source\<close> is the mapping the
  parser gave for the resolved text, the diagram kind is the first of \<^verbatim>\<open>signal\<close>,
  \<^verbatim>\<open>assign\<close>, \<^verbatim>\<open>reg\<close> present in it, and \<^verbatim>\<open>config\<close>, \<^verbatim>\<open>head\<close>, \<^verbatim>\<open>foot\<close> are the values stored
  under these keys (the empty mapping for an absent key). No failure is replaced by a
  default, and none of the initial field values survives except as such a lookup.
\<close>

theorem construction_atomic:
  "(case init env input_data of
      Inl e \<Rightarrow>
        spec_error_kind env input_data \<noteq> None
      \<and> spec_error_kind env input_data = kind_by_message e
    | Inr p \<Rightarrow>
        spec_error_kind env input_data = None
      \<and> (\<exists>text.
            (if endswith input_data ''.json5'' \<or> endswith input_data ''.json''
             then isfile env input_data \<and> read_file env input_data = Inr text
             else text = input_data)
          \<and> loads env text = Inr (PDict (source p)))
      \<and> diagram_type p =
          (if map_of (source p) ''signal'' \<noteq> None then ''signal''
           else if map_of (source p) ''assign'' \<noteq> None then ''assign''
           else ''reg'')
      \<and> map_of (source p) (diagram_type p) \<noteq> None
      \<and> config p = (case map_of (source p) ''config'' of Some v \<Rightarrow> v | None \<Rightarrow> PDict [])
      \<and> head p = (case map_of (source p) ''head'' of Some v \<Rightarrow> v | None \<Rightarrow> PDict [])
      \<and> foot p = (case map_of (source p) ''foot'' of Some v \<Rightarrow> v | None \<Rightarrow> PDict []))"
proof (cases "init env input_data")
  case (Inl e)
  with init_kind [of env input_data]
  have "spec_error_kind env input_data = kind_by_message e"
    by simp
  with init_Inl_kind [OF Inl] Inl show ?thesis
    by auto
next
  case (Inr p)
  with init_kind [of env input_data]
  have k: "spec_error_kind env input_data = None"
    by simp
  from Inr obtain content src kind where
    c: "get_content env input_data = Inr content" and
    s: "parse_json5 env content = Inr src" and
    d: "determine_diagram_type
          \<lparr>source = src, diagram_type = '''', config = PDict [],
           head = PDict [], foot = PDict []\<rparr> = Inr kind" and
    p: "p = \<lparr>source = src, diagram_type = kind,
             config = dict_get src ''config'' (PDict []),
             head = dict_get src ''head'' (PDict []),
             foot = dict_get src ''foot'' (PDict [])\<rparr>"
    unfolding init_Inr_iff by blast
  from c have t: "if endswith input_data ''.json5'' \<or> endswith input_data ''.json''
      then isfile env input_data \<and> read_file env input_data = Inr content
      else content = input_data"
    by (simp only: get_content_Inr_iff)
  from s have l: "loads env content = Inr (PDict src)"
    by (simp only: parse_json5_Inr_iff)
  from p have sp: "source p = src"
    by simp
  from l have l': "loads env content = Inr (PDict (source p))"
    unfolding sp .
  from t l' have r: "\<exists>text.
            (if endswith input_data ''.json5'' \<or> endswith input_data ''.json''
             then isfile env input_data \<and> read_file env input_data = Inr text
             else text = input_data)
          \<and> loads env text = Inr (PDict (source p))"
    by blast
  from determine_Inr_first_key [OF d] p
  have f: "diagram_type p =
          (if map_of (source p) ''signal'' \<noteq> None then ''signal''
           else if map_of (source p) ''assign'' \<noteq> None then ''assign''
           else ''reg'')"
    by simp
  from determine_Inr [OF d] p have m: "map_of (source p) (diagram_type p) \<noteq> None"
    by simp
  from p have a: "config p = (case map_of (source p) ''config'' of Some v \<Rightarrow> v | None \<Rightarrow> PDict [])"
      "head p = (case map_of (source p) ''head'' of Some v \<Rightarrow> v | None \<Rightarrow> PDict [])"
      "foot p = (case map_of (source p) ''foot'' of Some v \<Rightarrow> v | None \<Rightarrow> PDict [])"
    by (simp_all add: dict_get_def)
  show ?thesis
    unfolding Inr sum.case using k r f m a by blast
qed

theorem construction_atomic_witness:
  \<open>init test_env ''{"signal": [], "config": {"hscale": 2}, "head": {"text": "H"}, "foot": {"text": "F"}}''
     = Inr \<lparr>source = [(''signal'', PList []),
                      (''config'', PDict [(''hscale'', PInt 2)]),
                      (''head'', PDict [(''text'', PStr ''H'')]),
                      (''foot'', PDict [(''text'', PStr ''F'')])],
            diagram_type = ''signal'',
            config = PDict [(''hscale'', PInt 2)],
            head = PDict [(''text'', PStr ''H'')],
            foot = PDict [(''text'', PStr ''F'')]\<rparr>
   \<and> spec_error_kind test_env
        ''{"signal": [], "config": {"hscale": 2}, "head": {"text": "H"}, "foot": {"text": "F"}}''
       = None
   \<and> init test_env ''{ "config": {} }'' = Inl (ValueError
        ''[Semantic]: "signal:[...]", "assign:[...]", or "reg:[...]" property is missing inside the root Object'')
   \<and> spec_error_kind test_env ''{ "config": {} }'' = Some SemanticError
   \<and> init test_env ''missing.json5'' =
       Inl (FileNotFoundError ''File not found: missing.json5'')
   \<and> spec_error_kind test_env ''missing.json5'' = Some NotFound\<close>
proof -
  have a: \<open>init test_env ''{ "config": {} }'' = Inl (ValueError
        ''[Semantic]: "signal:[...]", "assign:[...]", or "reg:[...]" property is missing inside the root Object'')\<close>
    by (simp add: init_parsed [OF test_text(4) test_parse(4)] determine_diagram_type_def)
  have b: \<open>init test_env ''missing.json5'' =
       Inl (FileNotFoundError ''File not found: missing.json5'')\<close>
    by (simp add: init_def test_failures)
  from construction_atomic [of test_env
      \<open>''{"signal": [], "config": {"hscale": 2}, "head": {"text": "H"}, "foot": {"text": "F"}}''\<close>]
    test_init(2)
  have 1: \<open>spec_error_kind test_env
        ''{"signal": [], "config": {"hscale": 2}, "head": {"text": "H"}, "foot": {"text": "F"}}''
       = None\<close>
    by simp
  from construction_atomic [of test_env \<open>''{ "config": {} }''\<close>] a
  have 2: \<open>spec_error_kind test_env ''{ "config": {} }'' = Some SemanticError\<close>
    by simp
  from construction_atomic [of test_env \<open>''missing.json5''\<close>] b
  have 3: \<open>spec_error_kind test_env ''missing.json5'' = Some NotFound\<close>
    by simp
  from test_init(2) a b 1 2 3 show ?thesis
    by simp
qed

section \<open>Repeated construction\<close>





end
